theory Spec2Isabelle
  imports Main
begin

section \<open>Python values\<close>

text \<open>
  The two Lambda handlers of \<^verbatim>\<open>terraform/lambda\<close> work on JSON data: the event the
  runtime passes in, the message decoded from it and the Slack payload built from that.
  A Python \<^verbatim>\<open>str\<close> is a sequence of code points, so \<^verbatim>\<open>len\<close> and slicing count code
  points; it is modelled as a list of naturals. An ASCII literal of the source is written
  \<open>ascii ''...''\<close>.
\<close>

type_synonym ustr = "nat list"

abbreviation (input) ascii :: "string \<Rightarrow> ustr" where
  "ascii s \<equiv> map of_char s"

text \<open>A Python float: finite (mantissa and binary exponent), infinite or not a number.\<close>

datatype pyfloat = Finite int int | Infinity bool | NaN

text \<open>
  What \<^verbatim>\<open>json.loads\<close> can return and the Lambda runtime can pass as \<^verbatim>\<open>event\<close>. A
  \<^verbatim>\<open>dict\<close> keeps insertion order and is an association list; its keys are strings and
  the first binding of a key is the one looked up.
\<close>

datatype json =
    JNull
  | JBool bool
  | JInt int
  | JFloat pyfloat
  | JStr ustr
  | JList "json list"
  | JDict "(ustr \<times> json) list"

text \<open>
  The exceptions the handlers' own expressions can raise, each with the value it was
  raised on; the exceptions of the two library calls (\<^verbatim>\<open>json.loads\<close> and
  \<^verbatim>\<open>urllib3\<close>'s request) with their description; the one \<^verbatim>\<open>print\<close> raises on a
  line it cannot encode, with the line; and the one \<^verbatim>\<open>json.dumps\<close> raises on a value
  nested too deeply.
\<close>

datatype pyop = Subscript | Slice | Hash | Concat | Loads

datatype exn =
    KeyError json
  | IndexError json
  | TypeError pyop json
  | AttributeError ustr json
  | JSONDecodeError ustr
  | RequestError ustr
  | UnicodeEncodeError ustr
  | RecursionError

text \<open>The body of a \<^verbatim>\<open>try\<close> block: an exception is the left value and ends the block.\<close>

definition ebind :: "exn + 'a \<Rightarrow> ('a \<Rightarrow> exn + 'b) \<Rightarrow> exn + 'b" where
  "ebind m f = (case m of Inl e \<Rightarrow> Inl e | Inr x \<Rightarrow> f x)"

text \<open>Truth value of a value in \<^verbatim>\<open>if v\<close> and \<^verbatim>\<open>not v\<close>.\<close>

fun truthy :: "json \<Rightarrow> bool" where
  "truthy JNull = False"
| "truthy (JBool b) = b"
| "truthy (JInt i) = (i \<noteq> 0)"
| "truthy (JFloat (Finite m e)) = (m \<noteq> 0)"
| "truthy (JFloat f) = True"
| "truthy (JStr s) = (s \<noteq> [])"
| "truthy (JList xs) = (xs \<noteq> [])"
| "truthy (JDict d) = (d \<noteq> [])"

text \<open>\<^verbatim>\<open>v[k]\<close> for a string key \<open>k\<close>: only a dict takes one.\<close>

fun getitem_key :: "json \<Rightarrow> ustr \<Rightarrow> exn + json" where
  "getitem_key (JDict d) k =
     (case map_of d k of None \<Rightarrow> Inl (KeyError (JStr k)) | Some v \<Rightarrow> Inr v)"
| "getitem_key v k = Inl (TypeError Subscript v)"

text \<open>\<^verbatim>\<open>v[0]\<close>: the first element of a list, the first character of a string; a dict
  with string keys has no key \<open>0\<close>.\<close>

fun getitem0 :: "json \<Rightarrow> exn + json" where
  "getitem0 (JList []) = Inl (IndexError (JList []))"
| "getitem0 (JList (x # xs)) = Inr x"
| "getitem0 (JStr []) = Inl (IndexError (JStr []))"
| "getitem0 (JStr (c # cs)) = Inr (JStr [c])"
| "getitem0 (JDict d) = Inl (KeyError (JInt 0))"
| "getitem0 v = Inl (TypeError Subscript v)"

text \<open>\<^verbatim>\<open>v.get(k, default)\<close>: only a dict has the method.\<close>

fun dict_get :: "json \<Rightarrow> ustr \<Rightarrow> json \<Rightarrow> exn + json" where
  "dict_get (JDict d) k dflt = Inr (case map_of d k of None \<Rightarrow> dflt | Some v \<Rightarrow> v)"
| "dict_get v k dflt = Inl (AttributeError (ascii ''get'') v)"

text \<open>\<^verbatim>\<open>v[:n]\<close>: strings and lists are sliced, nothing else is (a dict raises too:
  a \<^verbatim>\<open>TypeError\<close> before Python 3.12, a \<^verbatim>\<open>KeyError\<close> since; the handlers treat
  both alike).\<close>

fun slice_to :: "nat \<Rightarrow> json \<Rightarrow> exn + json" where
  "slice_to n (JStr s) = Inr (JStr (take n s))"
| "slice_to n (JList xs) = Inr (JList (take n xs))"
| "slice_to n v = Inl (TypeError Slice v)"

text \<open>A value used as the key of a dict lookup is hashed first: lists and dicts are not
  hashable.\<close>

fun hashable :: "json \<Rightarrow> bool" where
  "hashable (JList xs) = False"
| "hashable (JDict d) = False"
| "hashable v = True"

section \<open>The platform\<close>

text \<open>
  Everything the handlers call that is not their own code: the Python library
  (\<^verbatim>\<open>json\<close>, \<^verbatim>\<open>str\<close>, the Unicode case tables, \<^verbatim>\<open>datetime\<close>) and the network. The
  handlers are functions of it. The case tables are asked for characters outside ASCII
  only, with the string and the position (the lower case of a capital sigma depends on
  them); inside ASCII the mapping is written out. \<open>stdout_encodes\<close> tells which
  characters outside ASCII the encoding of the standard output has (UTF-8 has all but the
  surrogates); ASCII characters are always written. \<open>max_depth\<close> is the nesting beyond
  which \<^verbatim>\<open>json.dumps\<close> runs out of stack, and \<open>json_dumps\<close> is the text it returns
  when it returns.
\<close>

record response =
  resp_status :: int
  resp_data :: "nat list"

record platform =
  json_loads :: "ustr \<Rightarrow> exn + json"
  json_dumps :: "json \<Rightarrow> ustr"
  str_of :: "json \<Rightarrow> ustr"
  bytes_str :: "nat list \<Rightarrow> ustr"
  exn_str :: "exn \<Rightarrow> ustr"
  lower_table :: "ustr \<Rightarrow> nat \<Rightarrow> nat \<Rightarrow> ustr"
  upper_table :: "ustr \<Rightarrow> nat \<Rightarrow> nat \<Rightarrow> ustr"
  utcnow_timestamp :: int
  utcnow_isoformat :: ustr
  http_request :: "ustr \<Rightarrow> ustr \<Rightarrow> exn + response"
  stdout_encodes :: "nat \<Rightarrow> bool"
  max_depth :: nat

text \<open>The process environment, read with \<^verbatim>\<open>os.environ.get\<close>.\<close>

record environ =
  SLACK_WEBHOOK_URL :: "ustr option"
  PROJECT_NAME :: "ustr option"
  ENVIRONMENT :: "ustr option"

text \<open>What a handler returns.\<close>

record lambda_response =
  statusCode :: int
  body :: ustr

definition ascii_lower :: "nat \<Rightarrow> nat" where
  "ascii_lower c = (if 65 \<le> c \<and> c \<le> 90 then c + 32 else c)"

definition ascii_upper :: "nat \<Rightarrow> nat" where
  "ascii_upper c = (if 97 \<le> c \<and> c \<le> 122 then c - 32 else c)"

definition py_lower :: "platform \<Rightarrow> ustr \<Rightarrow> ustr" where
  "py_lower ps s =
     concat (map (\<lambda>(i, c). if c < 128 then [ascii_lower c] else lower_table ps s i c)
               (enumerate 0 s))"

definition py_upper :: "platform \<Rightarrow> ustr \<Rightarrow> ustr" where
  "py_upper ps s =
     concat (map (\<lambda>(i, c). if c < 128 then [ascii_upper c] else upper_table ps s i c)
               (enumerate 0 s))"

text \<open>A value inside an f-string: a string is inserted as it is, any other value
  through \<^verbatim>\<open>str\<close>.\<close>

definition fmt :: "platform \<Rightarrow> json \<Rightarrow> ustr" where
  "fmt ps v = (case v of JStr s \<Rightarrow> s | _ \<Rightarrow> str_of ps v)"

text \<open>\<^verbatim>\<open>json.loads(v)\<close>: a value that is not a string is refused before any parsing.\<close>

definition loads :: "platform \<Rightarrow> json \<Rightarrow> exn + json" where
  "loads ps v = (case v of JStr s \<Rightarrow> json_loads ps s | _ \<Rightarrow> Inl (TypeError Loads v))"

text \<open>How deeply lists and dicts are nested in a value; a string is not nested.\<close>

fun depth :: "json \<Rightarrow> nat" where
  "depth (JList xs) = Suc (fold max (map depth xs) 0)"
| "depth (JDict d) = Suc (fold max (map (\<lambda>kv. depth (snd kv)) d) 0)"
| "depth v = 0"

text \<open>\<^verbatim>\<open>json.dumps(v)\<close> for a value of lists and dicts: a \<^verbatim>\<open>RecursionError\<close> when it
  is nested too deeply. The bodies of the responses are \<^verbatim>\<open>json.dumps\<close> of a string,
  which is not nested, and are written \<open>json_dumps ps (JStr s)\<close>.\<close>

definition dumps :: "platform \<Rightarrow> json \<Rightarrow> exn + ustr" where
  "dumps ps v = (if max_depth ps < depth v then Inl RecursionError else Inr (json_dumps ps v))"

text \<open>\<^verbatim>\<open>print(line)\<close>: the line is encoded for the standard output, and a character
  the encoding does not have raises.\<close>

definition print_line :: "platform \<Rightarrow> ustr \<Rightarrow> exn + unit" where
  "print_line ps line =
     (if list_all (\<lambda>c. c < 128 \<or> stdout_encodes ps c) line then Inr ()
      else Inl (UnicodeEncodeError line))"

text \<open>An integer inside an f-string: its decimal digits.\<close>

fun show_nat :: "nat \<Rightarrow> ustr" where
  "show_nat n = (if n < 10 then [48 + n] else show_nat (n div 10) @ [48 + n mod 10])"

declare show_nat.simps [simp del]

definition show_int :: "int \<Rightarrow> ustr" where
  "show_int i = (if i < 0 then 45 # show_nat (nat (- i)) else show_nat (nat i))"

text \<open>\<^verbatim>\<open>json.loads(event['Records'][0]['Sns']['Message'])\<close>, the first statement of the
  \<^verbatim>\<open>try\<close> block of both handlers.\<close>

definition sns_message :: "platform \<Rightarrow> json \<Rightarrow> exn + json" where
  "sns_message ps event =
     ebind (getitem_key event (ascii ''Records'')) (\<lambda>records.
     ebind (getitem0 records) (\<lambda>record0.
     ebind (getitem_key record0 (ascii ''Sns'')) (\<lambda>sns.
     ebind (getitem_key sns (ascii ''Message'')) (\<lambda>message.
     loads ps message))))"

definition project_name :: "environ \<Rightarrow> ustr" where
  "project_name env = (case PROJECT_NAME env of None \<Rightarrow> ascii ''NovaCore Vectra'' | Some p \<Rightarrow> p)"

definition environment :: "environ \<Rightarrow> ustr" where
  "environment env = (case ENVIRONMENT env of None \<Rightarrow> ascii ''unknown'' | Some e \<Rightarrow> e)"

text \<open>A field of an attachment.\<close>

definition field :: "ustr \<Rightarrow> json \<Rightarrow> bool \<Rightarrow> json" where
  "field t v s = JDict [(ascii ''title'', JStr t), (ascii ''value'', v), (ascii ''short'', JBool s)]"

text \<open>The two returns of the handlers that do not depend on the event, and the one of the
  \<^verbatim>\<open>except\<close> clause.\<close>

definition not_configured :: "platform \<Rightarrow> lambda_response" where
  "not_configured ps =
     \<lparr>statusCode = 400, body = json_dumps ps (JStr (ascii ''Slack webhook URL not configured''))\<rparr>"

definition sent :: "platform \<Rightarrow> lambda_response" where
  "sent ps =
     \<lparr>statusCode = 200, body = json_dumps ps (JStr (ascii ''Notification sent successfully''))\<rparr>"

definition not_sent :: "platform \<Rightarrow> response \<Rightarrow> lambda_response" where
  "not_sent ps r =
     \<lparr>statusCode = resp_status r,
      body = json_dumps ps (JStr (ascii ''Failed to send notification: '' @ bytes_str ps (resp_data r)))\<rparr>"

definition failed :: "platform \<Rightarrow> exn \<Rightarrow> lambda_response" where
  "failed ps e =
     \<lparr>statusCode = 500, body = json_dumps ps (JStr (ascii ''Error: '' @ exn_str ps e))\<rparr>"

text \<open>
  The end of the \<^verbatim>\<open>try\<close> block of both handlers: the message is serialised and posted
  to the webhook once, and the answer is mapped to the handler's after a line is logged:
  on status 200 the line the handler gives (it names the event type or the alarm), on any
  other status a line with the status. The second component is the list of the calls of
  \<^verbatim>\<open>http.request\<close>, each the URL and the body sent.
\<close>

definition status_line :: "int \<Rightarrow> ustr" where
  "status_line i = ascii ''Failed to send Slack notification. Status: '' @ show_int i"

definition send ::
  "platform \<Rightarrow> ustr \<Rightarrow> json \<Rightarrow> ustr \<Rightarrow> (exn + lambda_response) \<times> (ustr \<times> ustr) list" where
  "send ps url slack_message sent_line =
     (case dumps ps slack_message of
        Inl e \<Rightarrow> (Inl e, [])
      | Inr payload \<Rightarrow>
          (case http_request ps url payload of
             Inl e \<Rightarrow> Inl e
           | Inr r \<Rightarrow>
               if resp_status r = 200
               then ebind (print_line ps sent_line) (\<lambda>_. Inr (sent ps))
               else ebind (print_line ps (status_line (resp_status r)))
                      (\<lambda>_. Inr (not_sent ps r)),
           [(url, payload)]))"

text \<open>
  The frame both handlers share: the check of the webhook URL before the \<^verbatim>\<open>try\<close>
  block, with its log line; the block (building the message and the line for the log,
  then sending); and the \<^verbatim>\<open>except\<close> clause, which logs the description of the
  exception after the handler's own words and returns the 500 response. An exception of
  a \<^verbatim>\<open>print\<close> outside the \<^verbatim>\<open>try\<close> block leaves the handler: the result is then
  the exception, not a response. The outcome of building the message is an argument:
  where the URL check returns, the result does not depend on it.
\<close>

definition unconfigured :: "platform \<Rightarrow> (exn + lambda_response) \<times> (ustr \<times> ustr) list" where
  "unconfigured ps =
     (ebind (print_line ps (ascii ''ERROR: SLACK_WEBHOOK_URL environment variable not set''))
        (\<lambda>_. Inr (not_configured ps)), [])"

definition try_except ::
  "platform \<Rightarrow> ustr \<Rightarrow> ustr \<Rightarrow> (exn + json \<times> ustr)
     \<Rightarrow> (exn + lambda_response) \<times> (ustr \<times> ustr) list" where
  "try_except ps webhook_url error_words built =
     (case (case built of
              Inl e \<Rightarrow> (Inl e, [])
            | Inr (slack_message, sent_line) \<Rightarrow> send ps webhook_url slack_message sent_line) of
        (Inr r, reqs) \<Rightarrow> (Inr r, reqs)
      | (Inl e, reqs) \<Rightarrow>
          (ebind (print_line ps (error_words @ exn_str ps e)) (\<lambda>_. Inr (failed ps e)), reqs))"

definition run ::
  "platform \<Rightarrow> environ \<Rightarrow> ustr \<Rightarrow> (exn + json \<times> ustr)
     \<Rightarrow> (exn + lambda_response) \<times> (ustr \<times> ustr) list" where
  "run ps env error_words built =
     (case SLACK_WEBHOOK_URL env of
        None \<Rightarrow> unconfigured ps
      | Some webhook_url \<Rightarrow>
          if webhook_url = [] then unconfigured ps
          else try_except ps webhook_url error_words built)"

section \<open>The pipeline notifier\<close>

text \<open>\<^verbatim>\<open>pipeline_slack_notifier.py\<close>. The colour and the emoji of a status: the status is
  lowered and looked up in three lists, in this order; a status that is not a string has no
  \<^verbatim>\<open>lower\<close>.\<close>

definition classify_status :: "platform \<Rightarrow> json \<Rightarrow> exn + (ustr \<times> ustr)" where
  "classify_status ps status =
     (case status of
        JStr s \<Rightarrow>
          Inr (if py_lower ps s \<in> set [ascii ''success'', ascii ''completed'']
               then (ascii ''#00FF00'', [9989])
               else if py_lower ps s \<in> set [ascii ''failure'', ascii ''failed'', ascii ''error'']
               then (ascii ''#FF0000'', [10060])
               else if py_lower ps s \<in> set [ascii ''started'', ascii ''running'', ascii ''in_progress'']
               then (ascii ''#FFA500'', [128260])
               else (ascii ''#808080'', [10067]))
      | _ \<Rightarrow> Inl (AttributeError (ascii ''lower'') status))"

definition title_map :: "ustr \<Rightarrow> (ustr \<times> ustr) list" where
  "title_map emoji =
     [(ascii ''deployment_started'', emoji @ ascii '' Deployment Started''),
      (ascii ''deployment_completed'', emoji @ ascii '' Deployment Completed''),
      (ascii ''deployment_failed'', emoji @ ascii '' Deployment Failed''),
      (ascii ''build_started'', emoji @ ascii '' Build Started''),
      (ascii ''build_completed'', emoji @ ascii '' Build Completed''),
      (ascii ''build_failed'', emoji @ ascii '' Build Failed''),
      (ascii ''security_scan_completed'', emoji @ ascii '' Security Scan Completed''),
      (ascii ''security_scan_failed'', emoji @ ascii '' Security Scan Failed''),
      (ascii ''health_check_passed'', emoji @ ascii '' Health Check Passed''),
      (ascii ''health_check_failed'', emoji @ ascii '' Health Check Failed''),
      (ascii ''rollback_started'', emoji @ ascii '' Rollback Started''),
      (ascii ''rollback_completed'', emoji @ ascii '' Rollback Completed'')]"

text \<open>\<^verbatim>\<open>title_map.get(event_type, f"{emoji} Pipeline Event: {event_type}")\<close>: the event
  type is hashed for the lookup, and only a string can be equal to a key.\<close>

definition title_of :: "platform \<Rightarrow> ustr \<Rightarrow> json \<Rightarrow> exn + ustr" where
  "title_of ps emoji event_type =
     (let fallback = emoji @ ascii '' Pipeline Event: '' @ fmt ps event_type in
      if \<not> hashable event_type then Inl (TypeError Hash event_type)
      else Inr (case event_type of
                  JStr s \<Rightarrow> (case map_of (title_map emoji) s of None \<Rightarrow> fallback | Some t \<Rightarrow> t)
                | _ \<Rightarrow> fallback))"

text \<open>\<^verbatim>\<open>status.upper()\<close>.\<close>

definition upper_of :: "platform \<Rightarrow> json \<Rightarrow> exn + json" where
  "upper_of ps v =
     (case v of JStr s \<Rightarrow> Inr (JStr (py_upper ps s)) | _ \<Rightarrow> Inl (AttributeError (ascii ''upper'') v))"

text \<open>\<^verbatim>\<open>commit_message[:100] + ("..." if len(commit_message) > 100 else "")\<close>: the slice
  comes first; a list is sliced and measured, and then cannot be joined with a string.\<close>

definition commit_message_value :: "json \<Rightarrow> exn + json" where
  "commit_message_value commit_message =
     (case commit_message of
        JStr s \<Rightarrow> Inr (JStr (take 100 s @ (if length s > 100 then ascii ''...'' else [])))
      | JList xs \<Rightarrow> Inl (TypeError Concat (JList (take 100 xs)))
      | _ \<Rightarrow> Inl (TypeError Slice commit_message))"

text \<open>The fields of the attachment, in the order the source appends them.\<close>

definition pipeline_fields ::
  "platform \<Rightarrow> environ \<Rightarrow> json \<Rightarrow> json \<Rightarrow> json \<Rightarrow> json \<Rightarrow> json \<Rightarrow> json \<Rightarrow> exn + json list" where
  "pipeline_fields ps env status branch commit_sha author deployment_version commit_message =
     ebind (upper_of ps status) (\<lambda>status_upper.
     ebind (slice_to 8 commit_sha) (\<lambda>sha8.
     ebind (commit_message_value commit_message) (\<lambda>shown.
     Inr ([field (ascii ''Environment'') (JStr (py_upper ps (environment env))) True,
           field (ascii ''Status'') status_upper True,
           field (ascii ''Branch'') branch True,
           field (ascii ''Commit'') (JStr (fmt ps sha8)) True,
           field (ascii ''Author'') author True]
          @ (if truthy deployment_version
             then [field (ascii ''Version'') deployment_version True] else [])
          @ [field (ascii ''Commit Message'') shown False]))))"

definition view_workflow :: "json \<Rightarrow> json" where
  "view_workflow workflow_url =
     JDict [(ascii ''type'', JStr (ascii ''button'')),
            (ascii ''text'', JStr (ascii ''View Workflow'')),
            (ascii ''url'', workflow_url),
            (ascii ''style'', JStr (ascii ''primary''))]"

text \<open>The attachment as the dict literal builds it, and the key \<^verbatim>\<open>actions\<close> the source
  stores into it afterwards, for three event types.\<close>

definition pipeline_attachment ::
  "platform \<Rightarrow> environ \<Rightarrow> ustr \<Rightarrow> ustr \<Rightarrow> json \<Rightarrow> json list \<Rightarrow> json \<Rightarrow> json" where
  "pipeline_attachment ps env color title workflow_url flds event_type =
     JDict ([(ascii ''color'', JStr color),
             (ascii ''title'', JStr title),
             (ascii ''title_link'', if truthy workflow_url then workflow_url else JNull),
             (ascii ''fields'', JList flds),
             (ascii ''footer'', JStr (project_name env @ ascii '' Deployment Pipeline'')),
             (ascii ''ts'', JInt (utcnow_timestamp ps))]
            @ (if event_type \<in> set [JStr (ascii ''deployment_failed''),
                                     JStr (ascii ''build_failed''),
                                     JStr (ascii ''security_scan_failed'')]
               then [(ascii ''actions'', JList [view_workflow workflow_url])] else []))"

text \<open>The \<^verbatim>\<open>try\<close> block up to the message it sends.\<close>

definition pipeline_message :: "platform \<Rightarrow> environ \<Rightarrow> json \<Rightarrow> exn + json" where
  "pipeline_message ps env event =
     ebind (sns_message ps event) (\<lambda>m.
     ebind (dict_get m (ascii ''event_type'') (JStr (ascii ''unknown''))) (\<lambda>event_type.
     ebind (dict_get m (ascii ''status'') (JStr (ascii ''unknown''))) (\<lambda>status.
     ebind (dict_get m (ascii ''branch'') (JStr (ascii ''unknown''))) (\<lambda>branch.
     ebind (dict_get m (ascii ''commit_sha'') (JStr (ascii ''unknown''))) (\<lambda>commit_sha.
     ebind (dict_get m (ascii ''commit_message'') (JStr (ascii ''No commit message''))) (\<lambda>commit_message.
     ebind (dict_get m (ascii ''author'') (JStr (ascii ''Unknown''))) (\<lambda>author.
     ebind (dict_get m (ascii ''workflow_url'') (JStr [])) (\<lambda>workflow_url.
     ebind (dict_get m (ascii ''deployment_version'') (JStr [])) (\<lambda>deployment_version.
     ebind (classify_status ps status) (\<lambda>(color, emoji).
     ebind (title_of ps emoji event_type) (\<lambda>title.
     ebind (pipeline_fields ps env status branch commit_sha author deployment_version commit_message)
       (\<lambda>flds.
     Inr (JDict [(ascii ''username'', JStr (project_name env @ ascii '' CI/CD'')),
                 (ascii ''icon_emoji'', JStr (ascii '':rocket:'')),
                 (ascii ''attachments'',
                  JList [pipeline_attachment ps env color title workflow_url flds event_type])])
     ))))))))))))"

text \<open>The local variable \<^verbatim>\<open>event_type\<close>, which the line logged after a delivery
  names.\<close>

definition event_type_of :: "platform \<Rightarrow> json \<Rightarrow> exn + json" where
  "event_type_of ps event =
     ebind (sns_message ps event) (\<lambda>m. dict_get m (ascii ''event_type'') (JStr (ascii ''unknown'')))"

definition pipeline_try :: "platform \<Rightarrow> environ \<Rightarrow> json \<Rightarrow> exn + json \<times> ustr" where
  "pipeline_try ps env event =
     ebind (pipeline_message ps env event) (\<lambda>slack_message.
     ebind (event_type_of ps event) (\<lambda>event_type.
     Inr (slack_message,
          ascii ''Successfully sent Slack notification for pipeline event: '' @ fmt ps event_type)))"

definition pipeline_handler ::
  "platform \<Rightarrow> environ \<Rightarrow> json \<Rightarrow> (exn + lambda_response) \<times> (ustr \<times> ustr) list" where
  "pipeline_handler ps env event =
     run ps env (ascii ''Error processing pipeline event notification: '')
       (pipeline_try ps env event)"

section \<open>The alarm notifier\<close>

text \<open>\<^verbatim>\<open>slack_notifier.py\<close>. The colour and the emoji of the new state, each looked up in
  a dict with the state as the key.\<close>

definition color_map :: "(ustr \<times> ustr) list" where
  "color_map = [(ascii ''ALARM'', ascii ''#FF0000''), (ascii ''OK'', ascii ''#00FF00''),
                (ascii ''INSUFFICIENT_DATA'', ascii ''#FFA500'')]"

definition emoji_map :: "(ustr \<times> ustr) list" where
  "emoji_map = [(ascii ''ALARM'', [128680]), (ascii ''OK'', [9989]),
                (ascii ''INSUFFICIENT_DATA'', [9888, 65039])]"

definition map_get :: "(ustr \<times> ustr) list \<Rightarrow> json \<Rightarrow> ustr \<Rightarrow> exn + ustr" where
  "map_get table k dflt =
     (if \<not> hashable k then Inl (TypeError Hash k)
      else Inr (case k of
                  JStr s \<Rightarrow> (case map_of table s of None \<Rightarrow> dflt | Some v \<Rightarrow> v)
                | _ \<Rightarrow> dflt))"

definition classify_state :: "json \<Rightarrow> exn + (ustr \<times> ustr)" where
  "classify_state new_state =
     ebind (map_get color_map new_state (ascii ''#808080'')) (\<lambda>color.
     ebind (map_get emoji_map new_state [10067]) (\<lambda>emoji.
     Inr (color, emoji)))"

definition alarm_attachment ::
  "platform \<Rightarrow> environ \<Rightarrow> ustr \<Rightarrow> ustr \<Rightarrow> json \<Rightarrow> json \<Rightarrow> json \<Rightarrow> json \<Rightarrow> json \<Rightarrow> json \<Rightarrow> json" where
  "alarm_attachment ps env color emoji alarm_name alarm_description new_state old_state reason timestamp =
     JDict [(ascii ''color'', JStr color),
            (ascii ''title'', JStr (emoji @ ascii '' CloudWatch Alarm: '' @ fmt ps alarm_name)),
            (ascii ''fields'',
             JList [field (ascii ''Environment'') (JStr (py_upper ps (environment env))) True,
                    field (ascii ''State Change'')
                      (JStr (fmt ps old_state @ [32, 8594, 32] @ fmt ps new_state)) True,
                    field (ascii ''Description'') alarm_description False,
                    field (ascii ''Reason'') reason False,
                    field (ascii ''Timestamp'') timestamp True]),
            (ascii ''footer'', JStr (project_name env @ ascii '' AWS Infrastructure'')),
            (ascii ''ts'', JInt (utcnow_timestamp ps))]"

definition alarm_message :: "platform \<Rightarrow> environ \<Rightarrow> json \<Rightarrow> exn + json" where
  "alarm_message ps env event =
     ebind (sns_message ps event) (\<lambda>m.
     ebind (dict_get m (ascii ''AlarmName'') (JStr (ascii ''Unknown Alarm''))) (\<lambda>alarm_name.
     ebind (dict_get m (ascii ''AlarmDescription'') (JStr (ascii ''No description''))) (\<lambda>alarm_description.
     ebind (dict_get m (ascii ''NewStateValue'') (JStr (ascii ''UNKNOWN''))) (\<lambda>new_state.
     ebind (dict_get m (ascii ''OldStateValue'') (JStr (ascii ''UNKNOWN''))) (\<lambda>old_state.
     ebind (dict_get m (ascii ''NewStateReason'') (JStr (ascii ''No reason provided''))) (\<lambda>reason.
     ebind (dict_get m (ascii ''StateChangeTime'') (JStr (utcnow_isoformat ps))) (\<lambda>timestamp.
     ebind (classify_state new_state) (\<lambda>(color, emoji).
     Inr (JDict [(ascii ''username'', JStr (project_name env @ ascii '' Monitoring'')),
                 (ascii ''icon_emoji'', JStr (ascii '':warning:'')),
                 (ascii ''attachments'',
                  JList [alarm_attachment ps env color emoji alarm_name alarm_description
                           new_state old_state reason timestamp])])
     ))))))))"

text \<open>The local variable \<^verbatim>\<open>alarm_name\<close>, which the line logged after a delivery
  names.\<close>

definition alarm_name_of :: "platform \<Rightarrow> json \<Rightarrow> exn + json" where
  "alarm_name_of ps event =
     ebind (sns_message ps event) (\<lambda>m. dict_get m (ascii ''AlarmName'') (JStr (ascii ''Unknown Alarm'')))"

definition alarm_try :: "platform \<Rightarrow> environ \<Rightarrow> json \<Rightarrow> exn + json \<times> ustr" where
  "alarm_try ps env event =
     ebind (alarm_message ps env event) (\<lambda>slack_message.
     ebind (alarm_name_of ps event) (\<lambda>alarm_name.
     Inr (slack_message,
          ascii ''Successfully sent Slack notification for alarm: '' @ fmt ps alarm_name)))"

definition alarm_handler ::
  "platform \<Rightarrow> environ \<Rightarrow> json \<Rightarrow> (exn + lambda_response) \<times> (ustr \<times> ustr) list" where
  "alarm_handler ps env event =
     run ps env (ascii ''Error processing CloudWatch alarm notification: '')
       (alarm_try ps env event)"

section \<open>A sample platform and sample events\<close>

text \<open>A platform to run the handlers on concrete inputs: the parser and the webhook's
  answer are given, strings are serialised between double quotes, time stands still, the
  standard output is UTF-8 (no surrogates, U+D800 to U+DFFF).\<close>

definition fmt_key :: "json \<Rightarrow> ustr" where
  "fmt_key k = (case k of JStr s \<Rightarrow> s | _ \<Rightarrow> ascii ''?'')"

definition sample_platform :: "(ustr \<Rightarrow> exn + json) \<Rightarrow> (exn + response) \<Rightarrow> platform" where
  "sample_platform parse answer =
     \<lparr>json_loads = parse,
      json_dumps = (\<lambda>v. case v of JStr s \<Rightarrow> [34] @ s @ [34] | _ \<Rightarrow> ascii ''{}''),
      str_of = (\<lambda>v. ascii ''?''),
      bytes_str = (\<lambda>b. ascii ''b'' @ [39] @ b @ [39]),
      exn_str = (\<lambda>e. case e of
                     KeyError k \<Rightarrow> [39] @ fmt_key k @ [39]
                   | IndexError v \<Rightarrow> ascii ''list index out of range''
                   | JSONDecodeError m \<Rightarrow> m
                   | RequestError m \<Rightarrow> m
                   | UnicodeEncodeError line \<Rightarrow> ascii ''surrogates not allowed''
                   | RecursionError \<Rightarrow> ascii ''maximum recursion depth exceeded''
                   | _ \<Rightarrow> ascii ''unsupported''),
      lower_table = (\<lambda>s i c. [c]),
      upper_table = (\<lambda>s i c. [c]),
      utcnow_timestamp = 1700000000,
      utcnow_isoformat = ascii ''2023-11-14T22:13:20'',
      http_request = (\<lambda>url payload. answer),
      stdout_encodes = (\<lambda>c. c < 55296 \<or> 57343 < c),
      max_depth = 900\<rparr>"

text \<open>An SNS event whose only record carries the given message.\<close>

definition sns_event :: "json \<Rightarrow> json" where
  "sns_event message =
     JDict [(ascii ''Records'',
             JList [JDict [(ascii ''Sns'', JDict [(ascii ''Message'', message)])]])]"

definition sample_env :: "ustr option \<Rightarrow> environ" where
  "sample_env url = \<lparr>SLACK_WEBHOOK_URL = url, PROJECT_NAME = None, ENVIRONMENT = Some (ascii ''prod'')\<rparr>"

text \<open>Two decoded messages: a failed build with no workflow URL, and an alarm that
  went back to OK.\<close>

definition failed_build :: json where
  "failed_build =
     JDict [(ascii ''event_type'', JStr (ascii ''build_failed'')),
            (ascii ''status'', JStr (ascii ''FAILED'')),
            (ascii ''branch'', JStr (ascii ''main'')),
            (ascii ''commit_sha'', JStr (ascii ''abcdef1234567890''))]"

definition alarm_cleared :: json where
  "alarm_cleared =
     JDict [(ascii ''AlarmName'', JStr (ascii ''HighCPU'')),
            (ascii ''NewStateValue'', JStr (ascii ''OK'')),
            (ascii ''OldStateValue'', JStr (ascii ''ALARM''))]"

text \<open>A completed deployment with a workflow URL and a version.\<close>

definition deployment_done :: json where
  "deployment_done =
     JDict [(ascii ''event_type'', JStr (ascii ''deployment_completed'')),
            (ascii ''status'', JStr (ascii ''success'')),
            (ascii ''workflow_url'', JStr (ascii ''https://ci.example/run/1'')),
            (ascii ''deployment_version'', JStr (ascii ''v1.2.3''))]"

text \<open>A message whose event type is the lone surrogate U+D800 (the JSON text
  \<^verbatim>\<open>{"event_type": "\ud800"}\<close>), an alarm whose name ends with it, and a message that
  holds \<^verbatim>\<open>NaN\<close>, with its text \<^verbatim>\<open>{"branch": NaN}\<close>. \<open>parse_as text v\<close> is a
  parser that reads \<open>text\<close> as \<open>v\<close>, the way \<^verbatim>\<open>json.loads\<close> reads these texts, and
  refuses every other text.\<close>

definition unloggable_event :: json where
  "unloggable_event = JDict [(ascii ''event_type'', JStr [55296])]"

definition unloggable_alarm :: json where
  "unloggable_alarm = JDict [(ascii ''AlarmName'', JStr (ascii ''cpu'' @ [55296]))]"

definition unloggable_text :: ustr where
  "unloggable_text =
     [123, 34] @ ascii ''event_type'' @ [34, 58, 32, 34, 92] @ ascii ''ud800'' @ [34, 125]"

definition nan_message :: json where
  "nan_message = JDict [(ascii ''branch'', JFloat NaN)]"

definition nan_text :: ustr where
  "nan_text = [123, 34] @ ascii ''branch'' @ [34, 58, 32] @ ascii ''NaN'' @ [125]"

definition parse_as :: "ustr \<Rightarrow> json \<Rightarrow> ustr \<Rightarrow> exn + json" where
  "parse_as text v s =
     (if s = text then Inr v else Inl (JSONDecodeError (ascii ''Expecting value'')))"

section \<open>Well-formed JSON\<close>

text \<open>
  The grammar of RFC 8259, as a recogniser on code points: what ``well-formed JSON'' means
  where a statement about the handlers is worded with it. \<open>scan_string\<close> reads a string
  after its opening quotation mark, \<open>scan_number\<close> a number, \<open>scan_value\<close> a value;
  each returns the rest of the text. The first argument of \<open>scan_value\<close> bounds the
  number of nested calls, and twice the length of the text is enough.
\<close>

definition is_ws :: "nat \<Rightarrow> bool" where
  "is_ws c = (c = 32 \<or> c = 9 \<or> c = 10 \<or> c = 13)"

definition skip_ws :: "ustr \<Rightarrow> ustr" where
  "skip_ws s = dropWhile is_ws s"

definition is_digit :: "nat \<Rightarrow> bool" where
  "is_digit c = (48 \<le> c \<and> c \<le> 57)"

definition is_hex :: "nat \<Rightarrow> bool" where
  "is_hex c = (is_digit c \<or> (65 \<le> c \<and> c \<le> 70) \<or> (97 \<le> c \<and> c \<le> 102))"

fun scan_string :: "ustr \<Rightarrow> ustr option" where
  "scan_string [] = None"
| "scan_string (c # r) =
     (if c = 34 then Some r
      else if c = 92 then
        (case r of
           [] \<Rightarrow> None
         | e # r' \<Rightarrow>
             if e \<in> set [34, 92, 47, 98, 102, 110, 114, 116] then scan_string r'
             else if e = 117 \<and> 4 \<le> length r' \<and> list_all is_hex (take 4 r')
             then scan_string (drop 4 r')
             else None)
      else if c < 32 then None
      else scan_string r)"

definition scan_digits :: "ustr \<Rightarrow> ustr option" where
  "scan_digits s =
     (case s of [] \<Rightarrow> None | d # r \<Rightarrow> if is_digit d then Some (dropWhile is_digit r) else None)"

definition scan_int :: "ustr \<Rightarrow> ustr option" where
  "scan_int s =
     (case s of
        [] \<Rightarrow> None
      | c # r \<Rightarrow> if c = 48 then Some r
                 else if 49 \<le> c \<and> c \<le> 57 then Some (dropWhile is_digit r)
                 else None)"

definition scan_frac :: "ustr \<Rightarrow> ustr option" where
  "scan_frac s = (case s of [] \<Rightarrow> Some s | c # r \<Rightarrow> if c = 46 then scan_digits r else Some s)"

definition scan_exp :: "ustr \<Rightarrow> ustr option" where
  "scan_exp s =
     (case s of
        [] \<Rightarrow> Some s
      | c # r \<Rightarrow>
          if c = 101 \<or> c = 69
          then scan_digits (case r of [] \<Rightarrow> [] | g # t \<Rightarrow> if g = 43 \<or> g = 45 then t else r)
          else Some s)"

definition scan_number :: "ustr \<Rightarrow> ustr option" where
  "scan_number s =
     Option.bind (scan_int (case s of [] \<Rightarrow> [] | c # r \<Rightarrow> if c = 45 then r else s))
       (\<lambda>s1. Option.bind (scan_frac s1) scan_exp)"

fun scan_value :: "nat \<Rightarrow> ustr \<Rightarrow> ustr option"
  and scan_elements :: "nat \<Rightarrow> ustr \<Rightarrow> ustr option"
  and scan_members :: "nat \<Rightarrow> ustr \<Rightarrow> ustr option" where
  "scan_value 0 s = None"
| "scan_value (Suc n) s =
     (case s of
        [] \<Rightarrow> None
      | c # r \<Rightarrow>
          if c = 34 then scan_string r
          else if c = 91 then
            (case skip_ws r of
               [] \<Rightarrow> None
             | c' # r' \<Rightarrow> if c' = 93 then Some r' else scan_elements n (c' # r'))
          else if c = 123 then
            (case skip_ws r of
               [] \<Rightarrow> None
             | c' # r' \<Rightarrow> if c' = 125 then Some r' else scan_members n (c' # r'))
          else if take 4 s = ascii ''true'' then Some (drop 4 s)
          else if take 5 s = ascii ''false'' then Some (drop 5 s)
          else if take 4 s = ascii ''null'' then Some (drop 4 s)
          else scan_number s)"
| "scan_elements 0 s = None"
| "scan_elements (Suc n) s =
     (case scan_value n s of
        None \<Rightarrow> None
      | Some r \<Rightarrow>
          (case skip_ws r of
             [] \<Rightarrow> None
           | c # r' \<Rightarrow> if c = 44 then scan_elements n (skip_ws r')
                       else if c = 93 then Some r' else None))"
| "scan_members 0 s = None"
| "scan_members (Suc n) s =
     (case s of
        [] \<Rightarrow> None
      | c # r \<Rightarrow>
          if c \<noteq> 34 then None
          else
            (case scan_string r of
               None \<Rightarrow> None
             | Some r1 \<Rightarrow>
                 (case skip_ws r1 of
                    [] \<Rightarrow> None
                  | c1 # r2 \<Rightarrow>
                      if c1 \<noteq> 58 then None
                      else
                        (case scan_value n (skip_ws r2) of
                           None \<Rightarrow> None
                         | Some r3 \<Rightarrow>
                             (case skip_ws r3 of
                                [] \<Rightarrow> None
                              | c3 # r4 \<Rightarrow> if c3 = 44 then scan_members n (skip_ws r4)
                                           else if c3 = 125 then Some r4 else None)))))"

definition well_formed_json :: "ustr \<Rightarrow> bool" where
  "well_formed_json s =
     (case scan_value (2 * length s + 2) (skip_ws s) of
        None \<Rightarrow> False
      | Some r \<Rightarrow> skip_ws r = [])"

section \<open>Basic facts\<close>

lemma ebind_Inl [simp]: "ebind (Inl e) f = Inl e"
  by (simp add: ebind_def)

lemma ebind_Inr [simp]: "ebind (Inr x) f = f x"
  by (simp add: ebind_def)

lemma ebind_eq_Inr: "(ebind m f = Inr y) = (\<exists>x. m = Inr x \<and> f x = Inr y)"
  by (cases m) simp_all

lemma print_line_ascii: "list_all (\<lambda>c. c < 128) line \<Longrightarrow> print_line ps line = Inr ()"
  by (auto simp: print_line_def list_all_iff)

lemma print_line_append:
  "print_line ps (xs @ ys) = Inr () \<longleftrightarrow> print_line ps xs = Inr () \<and> print_line ps ys = Inr ()"
  by (auto simp: print_line_def)

lemma show_nat_ascii: "list_all (\<lambda>c. c < 128) (show_nat n)"
proof (induction n rule: show_nat.induct)
  case (1 n)
  show ?case
  proof (cases "n < 10")
    case True
    then show ?thesis by (subst show_nat.simps) simp
  next
    case False
    with "1" have "list_all (\<lambda>c. c < 128) (show_nat (n div 10))" by simp
    moreover have "48 + n mod 10 < 128" by arith
    ultimately show ?thesis using False by (subst show_nat.simps) simp
  qed
qed

lemma show_int_ascii: "list_all (\<lambda>c. c < 128) (show_int i)"
  by (simp add: show_int_def show_nat_ascii)

lemma status_line_printed: "print_line ps (status_line i) = Inr ()"
  by (rule print_line_ascii) (simp add: status_line_def show_int_ascii)

lemma unconfigured_eq: "unconfigured ps = (Inr (not_configured ps), [])"
  by (simp add: unconfigured_def print_line_ascii)

lemma run_unset:
  "SLACK_WEBHOOK_URL env = None \<Longrightarrow> run ps env w built = (Inr (not_configured ps), [])"
  by (simp add: run_def unconfigured_eq)

lemma run_empty:
  "SLACK_WEBHOOK_URL env = Some [] \<Longrightarrow> run ps env w built = (Inr (not_configured ps), [])"
  by (simp add: run_def unconfigured_eq)

lemma run_raised:
  "SLACK_WEBHOOK_URL env = Some url \<Longrightarrow> url \<noteq> [] \<Longrightarrow>
   run ps env w (Inl e) = (ebind (print_line ps (w @ exn_str ps e)) (\<lambda>_. Inr (failed ps e)), [])"
  by (simp add: run_def try_except_def)

lemma send_answered:
  "dumps ps msg = Inr payload \<Longrightarrow> http_request ps url payload = Inr r \<Longrightarrow>
   send ps url msg line =
     (if resp_status r = 200 then ebind (print_line ps line) (\<lambda>_. Inr (sent ps))
      else Inr (not_sent ps r),
      [(url, payload)])"
  by (simp add: send_def status_line_printed)

lemma run_answered:
  assumes "SLACK_WEBHOOK_URL env = Some url" and "url \<noteq> []"
    and "dumps ps msg = Inr payload" and "http_request ps url payload = Inr r"
  shows "run ps env w (Inr (msg, line)) =
     (if resp_status r = 200
      then (case print_line ps line of
              Inr _ \<Rightarrow> Inr (sent ps)
            | Inl e \<Rightarrow> ebind (print_line ps (w @ exn_str ps e)) (\<lambda>_. Inr (failed ps e)))
      else Inr (not_sent ps r),
      [(url, payload)])"
  using assms by (simp add: run_def try_except_def send_answered split: sum.split)

lemma run_request_raised:
  assumes "SLACK_WEBHOOK_URL env = Some url" and "url \<noteq> []"
    and "dumps ps msg = Inr payload" and "http_request ps url payload = Inl e"
  shows "run ps env w (Inr (msg, line)) =
     (ebind (print_line ps (w @ exn_str ps e)) (\<lambda>_. Inr (failed ps e)), [(url, payload)])"
  using assms by (simp add: run_def try_except_def send_def)

lemma run_dumps_raised:
  assumes "SLACK_WEBHOOK_URL env = Some url" and "url \<noteq> []" and "dumps ps msg = Inl e"
  shows "run ps env w (Inr (msg, line)) =
     (ebind (print_line ps (w @ exn_str ps e)) (\<lambda>_. Inr (failed ps e)), [])"
  using assms by (simp add: run_def try_except_def send_def)

text \<open>A handler returns one of its four responses, or raises what the \<^verbatim>\<open>print\<close> of the
  \<^verbatim>\<open>except\<close> clause raised.\<close>

lemma run_cases:
  "(\<exists>code s. fst (run ps env w built) =
       Inr \<lparr>statusCode = code, body = json_dumps ps (JStr s)\<rparr>)
   \<or> (\<exists>e. fst (run ps env w built) = Inl (UnicodeEncodeError (w @ exn_str ps e)))"
  by (auto simp: run_def unconfigured_eq try_except_def send_def status_line_printed
      not_configured_def sent_def not_sent_def failed_def print_line_def ebind_def
      split: option.split sum.split prod.split)

lemma sample_platform_simps [simp]:
  "json_loads (sample_platform p a) = p"
  "json_dumps (sample_platform p a) (JStr s) = [34] @ s @ [34]"
  "json_dumps (sample_platform p a) (JDict d) = ascii ''{}''"
  "str_of (sample_platform p a) v = ascii ''?''"
  "bytes_str (sample_platform p a) b = ascii ''b'' @ [39] @ b @ [39]"
  "exn_str (sample_platform p a) (JSONDecodeError m) = m"
  "exn_str (sample_platform p a) (RequestError m) = m"
  "exn_str (sample_platform p a) (KeyError (JStr k)) = [39] @ k @ [39]"
  "exn_str (sample_platform p a) (IndexError v) = ascii ''list index out of range''"
  "exn_str (sample_platform p a) (UnicodeEncodeError line) = ascii ''surrogates not allowed''"
  "exn_str (sample_platform p a) RecursionError = ascii ''maximum recursion depth exceeded''"
  "lower_table (sample_platform p a) s i c = [c]"
  "upper_table (sample_platform p a) s i c = [c]"
  "utcnow_timestamp (sample_platform p a) = 1700000000"
  "utcnow_isoformat (sample_platform p a) = ascii ''2023-11-14T22:13:20''"
  "http_request (sample_platform p a) url payload = a"
  "stdout_encodes (sample_platform p a) c = (c < 55296 \<or> 57343 < c)"
  "max_depth (sample_platform p a) = 900"
  by (simp_all add: sample_platform_def fmt_key_def)

lemma sample_env_simps [simp]:
  "SLACK_WEBHOOK_URL (sample_env url) = url"
  "PROJECT_NAME (sample_env url) = None"
  "ENVIRONMENT (sample_env url) = Some (ascii ''prod'')"
  by (simp_all add: sample_env_def)

lemma sns_message_sns_event [simp]: "sns_message ps (sns_event (JStr s)) = json_loads ps s"
  by (simp add: sns_message_def sns_event_def loads_def)

lemma failed_build_message:
  "\<exists>msg. pipeline_message (sample_platform (\<lambda>s. Inr failed_build) a) (sample_env u)
            (sns_event (JStr (ascii ''{}''))) = Inr (JDict msg)"
  by (simp add: pipeline_message_def failed_build_def classify_status_def py_lower_def
      ascii_lower_def title_of_def fmt_def pipeline_fields_def upper_of_def
      commit_message_value_def)

lemma alarm_cleared_message:
  "\<exists>msg. alarm_message (sample_platform (\<lambda>s. Inr alarm_cleared) a) (sample_env u)
            (sns_event (JStr (ascii ''{}''))) = Inr (JDict msg)"
  by (simp add: alarm_message_def alarm_cleared_def classify_state_def map_get_def
      color_map_def emoji_map_def)

lemma concat_ascii_only:
  "\<forall>c\<in>set xs. c < 128 \<Longrightarrow>
   concat (map (\<lambda>(i, c). if c < 128 then [f c] else g i c) (enumerate n xs)) = map f xs"
  by (induction xs arbitrary: n) simp_all

lemma py_lower_ascii: "\<forall>c\<in>set s. c < 128 \<Longrightarrow> py_lower ps s = map ascii_lower s"
  unfolding py_lower_def by (rule concat_ascii_only)

lemma py_upper_ascii: "\<forall>c\<in>set s. c < 128 \<Longrightarrow> py_upper ps s = map ascii_upper s"
  unfolding py_upper_def by (rule concat_ascii_only)

lemma map_get_str:
  "map_get table (JStr s) dflt = Inr (case map_of table s of None \<Rightarrow> dflt | Some v \<Rightarrow> v)"
  by (simp add: map_get_def)

lemma alarm_message_built:
  assumes "alarm_message ps env event = Inr msg"
  shows "\<exists>m alarm_name alarm_description new_state old_state reason timestamp color emoji.
           sns_message ps event = Inr m
         \<and> dict_get m (ascii ''AlarmName'') (JStr (ascii ''Unknown Alarm'')) = Inr alarm_name
         \<and> dict_get m (ascii ''AlarmDescription'') (JStr (ascii ''No description'')) = Inr alarm_description
         \<and> dict_get m (ascii ''NewStateValue'') (JStr (ascii ''UNKNOWN'')) = Inr new_state
         \<and> dict_get m (ascii ''OldStateValue'') (JStr (ascii ''UNKNOWN'')) = Inr old_state
         \<and> dict_get m (ascii ''NewStateReason'') (JStr (ascii ''No reason provided'')) = Inr reason
         \<and> dict_get m (ascii ''StateChangeTime'') (JStr (utcnow_isoformat ps)) = Inr timestamp
         \<and> classify_state new_state = Inr (color, emoji)
         \<and> msg = JDict [(ascii ''username'', JStr (project_name env @ ascii '' Monitoring'')),
                         (ascii ''icon_emoji'', JStr (ascii '':warning:'')),
                         (ascii ''attachments'',
                          JList [alarm_attachment ps env color emoji alarm_name alarm_description
                                   new_state old_state reason timestamp])]"
  using assms by (auto simp: alarm_message_def ebind_eq_Inr split: prod.splits)

lemma pipeline_message_built:
  assumes "pipeline_message ps env event = Inr msg"
  shows "\<exists>m event_type status branch commit_sha commit_message author workflow_url
            deployment_version color emoji title flds.
           sns_message ps event = Inr m
         \<and> dict_get m (ascii ''event_type'') (JStr (ascii ''unknown'')) = Inr event_type
         \<and> dict_get m (ascii ''status'') (JStr (ascii ''unknown'')) = Inr status
         \<and> dict_get m (ascii ''branch'') (JStr (ascii ''unknown'')) = Inr branch
         \<and> dict_get m (ascii ''commit_sha'') (JStr (ascii ''unknown'')) = Inr commit_sha
         \<and> dict_get m (ascii ''commit_message'') (JStr (ascii ''No commit message'')) = Inr commit_message
         \<and> dict_get m (ascii ''author'') (JStr (ascii ''Unknown'')) = Inr author
         \<and> dict_get m (ascii ''workflow_url'') (JStr []) = Inr workflow_url
         \<and> dict_get m (ascii ''deployment_version'') (JStr []) = Inr deployment_version
         \<and> classify_status ps status = Inr (color, emoji)
         \<and> title_of ps emoji event_type = Inr title
         \<and> pipeline_fields ps env status branch commit_sha author deployment_version commit_message
             = Inr flds
         \<and> msg = JDict [(ascii ''username'', JStr (project_name env @ ascii '' CI/CD'')),
                         (ascii ''icon_emoji'', JStr (ascii '':rocket:'')),
                         (ascii ''attachments'',
                          JList [pipeline_attachment ps env color title workflow_url flds event_type])]"
  using assms by (auto simp: pipeline_message_def ebind_eq_Inr split: prod.splits)

lemma deployment_done_message:
  "\<exists>msg. pipeline_message (sample_platform (\<lambda>s. Inr deployment_done) a) (sample_env u)
            (sns_event (JStr (ascii ''{}''))) = Inr (JDict msg)"
  by (simp add: pipeline_message_def deployment_done_def classify_status_def py_lower_def
      ascii_lower_def title_of_def fmt_def pipeline_fields_def upper_of_def
      commit_message_value_def)

lemma title_link_null_without_url:
  assumes "pipeline_message ps env event = Inr msg"
    and "sns_message ps event = Inr (JDict d)"
    and "map_of d (ascii ''workflow_url'') = None \<or> map_of d (ascii ''workflow_url'') = Some (JStr [])"
  shows "\<exists>username icon att.
           msg = JDict [(ascii ''username'', username), (ascii ''icon_emoji'', icon),
                        (ascii ''attachments'', JList [JDict att])]
         \<and> map_of att (ascii ''title_link'') = Some JNull"
proof -
  from pipeline_message_built [OF assms(1)] assms(2) obtain event_type color title workflow_url flds where
    "dict_get (JDict d) (ascii ''workflow_url'') (JStr []) = Inr workflow_url"
    "msg = JDict [(ascii ''username'', JStr (project_name env @ ascii '' CI/CD'')),
                  (ascii ''icon_emoji'', JStr (ascii '':rocket:'')),
                  (ascii ''attachments'',
                   JList [pipeline_attachment ps env color title workflow_url flds event_type])]"
    by auto
  with assms(3) show ?thesis
    by (auto simp: pipeline_attachment_def)
qed

lemma pipeline_try_raised: "sns_message ps event = Inl e \<Longrightarrow> pipeline_try ps env event = Inl e"
  by (simp add: pipeline_try_def pipeline_message_def)

lemma alarm_try_raised: "sns_message ps event = Inl e \<Longrightarrow> alarm_try ps env event = Inl e"
  by (simp add: alarm_try_def alarm_message_def)

lemma pipeline_try_built:
  assumes "pipeline_message ps env event = Inr msg"
  shows "\<exists>event_type. event_type_of ps event = Inr event_type
           \<and> pipeline_try ps env event =
               Inr (msg, ascii ''Successfully sent Slack notification for pipeline event: ''
                         @ fmt ps event_type)"
  using pipeline_message_built [OF assms]
  by (auto simp: pipeline_try_def event_type_of_def assms)

lemma alarm_try_built:
  assumes "alarm_message ps env event = Inr msg"
  shows "\<exists>alarm_name. alarm_name_of ps event = Inr alarm_name
           \<and> alarm_try ps env event =
               Inr (msg, ascii ''Successfully sent Slack notification for alarm: ''
                         @ fmt ps alarm_name)"
  using alarm_message_built [OF assms]
  by (auto simp: alarm_try_def alarm_name_of_def assms)

text \<open>When the message was built and serialised and the webhook answered: status 200
  with the line logged gives the 200 response, any other status gives that status and a
  body quoting the answer's data.\<close>

lemma delivered_response:
  assumes "SLACK_WEBHOOK_URL env = Some url" and "url \<noteq> []"
    and "pipeline_message ps env event = Inr msg"
    and "event_type_of ps event = Inr event_type"
    and "dumps ps msg = Inr payload" and "http_request ps url payload = Inr r"
    and "resp_status r = 200 \<longrightarrow>
           print_line ps (ascii ''Successfully sent Slack notification for pipeline event: ''
                          @ fmt ps event_type) = Inr ()"
  shows "pipeline_handler ps env event =
           (Inr (if resp_status r = 200 then sent ps else not_sent ps r), [(url, payload)])"
proof -
  from pipeline_try_built [OF assms(3)] assms(4)
  have "pipeline_try ps env event =
          Inr (msg, ascii ''Successfully sent Slack notification for pipeline event: ''
                    @ fmt ps event_type)"
    by auto
  with assms show ?thesis
    by (simp add: pipeline_handler_def run_answered)
qed

text \<open>A handler returns a response with a status code and a serialised string, or raises
  what the \<^verbatim>\<open>print\<close> of the \<^verbatim>\<open>except\<close> clause raised.\<close>

lemma handlers_return_or_raise:
  "(\<exists>code s. fst (pipeline_handler ps env event) =
       Inr \<lparr>statusCode = code, body = json_dumps ps (JStr s)\<rparr>)
   \<or> (\<exists>e. fst (pipeline_handler ps env event) =
       Inl (UnicodeEncodeError (ascii ''Error processing pipeline event notification: ''
                                 @ exn_str ps e)))"
  "(\<exists>code s. fst (alarm_handler ps env event) =
       Inr \<lparr>statusCode = code, body = json_dumps ps (JStr s)\<rparr>)
   \<or> (\<exists>e. fst (alarm_handler ps env event) =
       Inl (UnicodeEncodeError (ascii ''Error processing CloudWatch alarm notification: ''
                                 @ exn_str ps e)))"
  unfolding pipeline_handler_def alarm_handler_def by (rule run_cases)+

text \<open>The definitions to unfold when a handler is run on a concrete input.\<close>

lemmas handler_eval =
  pipeline_handler_def alarm_handler_def run_def try_except_def send_def dumps_def
  pipeline_try_def alarm_try_def event_type_of_def alarm_name_of_def
  pipeline_message_def alarm_message_def classify_status_def classify_state_def map_get_def
  color_map_def emoji_map_def py_lower_def ascii_lower_def title_of_def fmt_def
  pipeline_fields_def upper_of_def commit_message_value_def pipeline_attachment_def
  alarm_attachment_def view_workflow_def field_def print_line_def parse_as_def
  sent_def not_sent_def failed_def py_upper_def ascii_upper_def environment_def project_name_def

lemma raised_500:
  assumes "SLACK_WEBHOOK_URL env = Some url" and "url \<noteq> []"
    and "sns_message ps event = Inl e"
  shows "pipeline_handler ps env event =
           (ebind (print_line ps (ascii ''Error processing pipeline event notification: ''
                                  @ exn_str ps e)) (\<lambda>_. Inr (failed ps e)), [])"
    and "alarm_handler ps env event =
           (ebind (print_line ps (ascii ''Error processing CloudWatch alarm notification: ''
                                  @ exn_str ps e)) (\<lambda>_. Inr (failed ps e)), [])"
  using assms
  by (simp_all add: pipeline_handler_def alarm_handler_def pipeline_try_raised alarm_try_raised
      run_raised del: append.simps list.map)

section \<open>The webhook URL\<close>

text \<open>
  Claim C4. When \<^verbatim>\<open>SLACK_WEBHOOK_URL\<close> is not set, both handlers return status 400 with
  the body \<^verbatim>\<open>json.dumps('Slack webhook URL not configured')\<close>, whatever the event is and
  whatever the parser would do with it: the right-hand side mentions neither the event nor
  \<open>json_loads\<close>, and no request is made.
\<close>

theorem missing_webhook_url_400:
  assumes "SLACK_WEBHOOK_URL env = None"
  shows "pipeline_handler ps env event =
           (Inr \<lparr>statusCode = 400,
                 body = json_dumps ps (JStr (ascii ''Slack webhook URL not configured''))\<rparr>, [])
       \<and> alarm_handler ps env event =
           (Inr \<lparr>statusCode = 400,
                 body = json_dumps ps (JStr (ascii ''Slack webhook URL not configured''))\<rparr>, [])"
  using assms by (simp add: pipeline_handler_def alarm_handler_def run_unset not_configured_def)

theorem missing_webhook_url_400_witness:
  "SLACK_WEBHOOK_URL (sample_env None) = None
   \<and> pipeline_handler (sample_platform (\<lambda>s. Inl (JSONDecodeError [])) (Inl (RequestError [])))
        (sample_env None) JNull =
       (Inr \<lparr>statusCode = 400, body = [34] @ ascii ''Slack webhook URL not configured'' @ [34]\<rparr>, [])
   \<and> alarm_handler (sample_platform (\<lambda>s. Inl (JSONDecodeError [])) (Inl (RequestError [])))
        (sample_env None) JNull =
       (Inr \<lparr>statusCode = 400, body = [34] @ ascii ''Slack webhook URL not configured'' @ [34]\<rparr>, [])"
  using missing_webhook_url_400
    [of "sample_env None" "sample_platform (\<lambda>s. Inl (JSONDecodeError [])) (Inl (RequestError []))" JNull]
  by simp

text \<open>
  Claim C10. A \<^verbatim>\<open>SLACK_WEBHOOK_URL\<close> that is set to the empty string is handled as an
  unset one (\<^verbatim>\<open>if not webhook_url\<close>): both handlers return the same 400 response and
  make no request.
\<close>

theorem empty_webhook_url_400:
  "pipeline_handler ps (env\<lparr>SLACK_WEBHOOK_URL := Some []\<rparr>) event =
     (Inr \<lparr>statusCode = 400,
           body = json_dumps ps (JStr (ascii ''Slack webhook URL not configured''))\<rparr>, [])
   \<and> pipeline_handler ps (env\<lparr>SLACK_WEBHOOK_URL := Some []\<rparr>) event =
     pipeline_handler ps (env\<lparr>SLACK_WEBHOOK_URL := None\<rparr>) event
   \<and> alarm_handler ps (env\<lparr>SLACK_WEBHOOK_URL := Some []\<rparr>) event =
     (Inr \<lparr>statusCode = 400,
           body = json_dumps ps (JStr (ascii ''Slack webhook URL not configured''))\<rparr>, [])
   \<and> alarm_handler ps (env\<lparr>SLACK_WEBHOOK_URL := Some []\<rparr>) event =
     alarm_handler ps (env\<lparr>SLACK_WEBHOOK_URL := None\<rparr>) event"
  by (simp add: pipeline_handler_def alarm_handler_def run_unset run_empty not_configured_def)

section \<open>The result of an invocation\<close>


text \<open>
  Claim C5. When the webhook answers with a status other than 200, the handler returns
  that status and a body quoting the answer's data; when it answers 200, the handler
  logs a line naming the event type (or the alarm) before it returns, inside the
  \<^verbatim>\<open>try\<close> block (\<open>delivered_response\<close>). Here the message is the well-formed JSON text
  \<^verbatim>\<open>{"event_type": "\ud800"}\<close> (for the alarm handler, an alarm name ending with
  U+D800) and the webhook answers 200: the line cannot be encoded, \<^verbatim>\<open>print\<close> raises,
  and the handler returns status 500 for a notification that was delivered.
\<close>

theorem delivered_but_reported_500:
  "well_formed_json unloggable_text
   \<and> pipeline_handler
     (sample_platform (parse_as unloggable_text unloggable_event)
        (Inr \<lparr>resp_status = 200, resp_data = ascii ''ok''\<rparr>))
     (sample_env (Some (ascii ''https://hooks.example''))) (sns_event (JStr unloggable_text)) =
     (Inr \<lparr>statusCode = 500, body = [34] @ ascii ''Error: surrogates not allowed'' @ [34]\<rparr>,
      [(ascii ''https://hooks.example'', ascii ''{}'')])
   \<and> alarm_handler
     (sample_platform (\<lambda>s. Inr unloggable_alarm)
        (Inr \<lparr>resp_status = 200, resp_data = ascii ''ok''\<rparr>))
     (sample_env (Some (ascii ''https://hooks.example''))) (sns_event (JStr (ascii ''{}''))) =
     (Inr \<lparr>statusCode = 500, body = [34] @ ascii ''Error: surrogates not allowed'' @ [34]\<rparr>,
      [(ascii ''https://hooks.example'', ascii ''{}'')])"
proof -
  have "well_formed_json unloggable_text"
    by code_simp
  then show ?thesis
    by (simp add: handler_eval unloggable_event_def unloggable_alarm_def)
qed




section \<open>Classification and display\<close>

text \<open>
  Claim C2. For every status string the pipeline classifier returns a pair and never
  raises: green and U+2705 when the lowered status is \<^verbatim>\<open>success\<close> or \<^verbatim>\<open>completed\<close>,
  red and U+274C when it is \<^verbatim>\<open>failure\<close>, \<^verbatim>\<open>failed\<close> or \<^verbatim>\<open>error\<close>, orange and
  U+1F504 when it is \<^verbatim>\<open>started\<close>, \<^verbatim>\<open>running\<close> or \<^verbatim>\<open>in_progress\<close>, and gray and
  U+2753 for every other string, the empty one included. The comparison ignores case: on
  an ASCII string, lowering maps \<open>A..Z\<close> to \<open>a..z\<close> and nothing else.
\<close>

theorem classify_status_table:
  "(py_lower ps s \<in> {ascii ''success'', ascii ''completed''} \<longrightarrow>
      classify_status ps (JStr s) = Inr (ascii ''#00FF00'', [9989]))
   \<and> (py_lower ps s \<in> {ascii ''failure'', ascii ''failed'', ascii ''error''} \<longrightarrow>
      classify_status ps (JStr s) = Inr (ascii ''#FF0000'', [10060]))
   \<and> (py_lower ps s \<in> {ascii ''started'', ascii ''running'', ascii ''in_progress''} \<longrightarrow>
      classify_status ps (JStr s) = Inr (ascii ''#FFA500'', [128260]))
   \<and> (py_lower ps s \<notin> {ascii ''success'', ascii ''completed'', ascii ''failure'', ascii ''failed'',
                        ascii ''error'', ascii ''started'', ascii ''running'', ascii ''in_progress''} \<longrightarrow>
      classify_status ps (JStr s) = Inr (ascii ''#808080'', [10067]))
   \<and> (\<exists>p. classify_status ps (JStr s) = Inr p)
   \<and> ((\<forall>c\<in>set s. c < 128) \<longrightarrow> py_lower ps s = map ascii_lower s)"
  by (auto simp: classify_status_def py_lower_ascii)

theorem classify_status_table_witness:
  "classify_status (sample_platform (\<lambda>s. Inr JNull) (Inl (RequestError []))) (JStr (ascii ''SUCCESS'')) =
     Inr (ascii ''#00FF00'', [9989])
   \<and> classify_status (sample_platform (\<lambda>s. Inr JNull) (Inl (RequestError []))) (JStr (ascii ''Failed'')) =
     Inr (ascii ''#FF0000'', [10060])
   \<and> classify_status (sample_platform (\<lambda>s. Inr JNull) (Inl (RequestError []))) (JStr (ascii ''In_Progress'')) =
     Inr (ascii ''#FFA500'', [128260])
   \<and> classify_status (sample_platform (\<lambda>s. Inr JNull) (Inl (RequestError []))) (JStr (ascii ''paused'')) =
     Inr (ascii ''#808080'', [10067])
   \<and> classify_status (sample_platform (\<lambda>s. Inr JNull) (Inl (RequestError []))) (JStr []) =
     Inr (ascii ''#808080'', [10067])"
  using
    classify_status_table [of "sample_platform (\<lambda>s. Inr JNull) (Inl (RequestError []))" "ascii ''SUCCESS''"]
    classify_status_table [of "sample_platform (\<lambda>s. Inr JNull) (Inl (RequestError []))" "ascii ''Failed''"]
    classify_status_table [of "sample_platform (\<lambda>s. Inr JNull) (Inl (RequestError []))" "ascii ''In_Progress''"]
    classify_status_table [of "sample_platform (\<lambda>s. Inr JNull) (Inl (RequestError []))" "ascii ''paused''"]
    classify_status_table [of "sample_platform (\<lambda>s. Inr JNull) (Inl (RequestError []))" "[]"]
  by (simp add: ascii_lower_def)

text \<open>
  Claim C8. The value shown for a commit message string is the string itself when it has
  at most 100 characters, and its first 100 characters followed by \<^verbatim>\<open>...\<close> when it has
  more; it is the value of the last field, \<^verbatim>\<open>Commit Message\<close>, of the attachment.
\<close>

theorem commit_message_truncation:
  "commit_message_value (JStr s) =
     Inr (JStr (if length s \<le> 100 then s else take 100 s @ ascii ''...''))
   \<and> (\<forall>flds. pipeline_fields ps env status branch commit_sha author deployment_version (JStr s) = Inr flds
        \<longrightarrow> last flds = field (ascii ''Commit Message'')
                           (JStr (if length s \<le> 100 then s else take 100 s @ ascii ''...'')) False)"
  by (auto simp: commit_message_value_def pipeline_fields_def ebind_eq_Inr)

theorem commit_message_truncation_witness:
  "commit_message_value (JStr (replicate 150 120)) = Inr (JStr (replicate 100 120 @ ascii ''...''))
   \<and> commit_message_value (JStr (replicate 101 120)) = Inr (JStr (replicate 100 120 @ ascii ''...''))
   \<and> commit_message_value (JStr (replicate 100 120)) = Inr (JStr (replicate 100 120))
   \<and> commit_message_value (JStr (ascii ''fix typo'')) = Inr (JStr (ascii ''fix typo''))
   \<and> pipeline_fields (sample_platform (\<lambda>s. Inr JNull) (Inl (RequestError []))) (sample_env None)
        (JStr (ascii ''success'')) (JStr (ascii ''main'')) (JStr (ascii ''abcdef1234567890''))
        (JStr (ascii ''dev'')) (JStr []) (JStr (replicate 150 120)) =
      Inr [field (ascii ''Environment'') (JStr (ascii ''PROD'')) True,
           field (ascii ''Status'') (JStr (ascii ''SUCCESS'')) True,
           field (ascii ''Branch'') (JStr (ascii ''main'')) True,
           field (ascii ''Commit'') (JStr (ascii ''abcdef12'')) True,
           field (ascii ''Author'') (JStr (ascii ''dev'')) True,
           field (ascii ''Commit Message'') (JStr (replicate 100 120 @ ascii ''...'')) False]"
proof -
  let ?ps = "sample_platform (\<lambda>s. Inr JNull) (Inl (RequestError []))"
  have built:
    "\<exists>shown. pipeline_fields ?ps (sample_env None)
        (JStr (ascii ''success'')) (JStr (ascii ''main'')) (JStr (ascii ''abcdef1234567890''))
        (JStr (ascii ''dev'')) (JStr []) (JStr (replicate 150 120)) =
      Inr [field (ascii ''Environment'') (JStr (ascii ''PROD'')) True,
           field (ascii ''Status'') (JStr (ascii ''SUCCESS'')) True,
           field (ascii ''Branch'') (JStr (ascii ''main'')) True,
           field (ascii ''Commit'') (JStr (ascii ''abcdef12'')) True,
           field (ascii ''Author'') (JStr (ascii ''dev'')) True,
           shown]"
    by (simp add: pipeline_fields_def upper_of_def py_upper_ascii ascii_upper_def fmt_def
        commit_message_value_def environment_def)
  then obtain shown where flds:
    "pipeline_fields ?ps (sample_env None)
        (JStr (ascii ''success'')) (JStr (ascii ''main'')) (JStr (ascii ''abcdef1234567890''))
        (JStr (ascii ''dev'')) (JStr []) (JStr (replicate 150 120)) =
      Inr [field (ascii ''Environment'') (JStr (ascii ''PROD'')) True,
           field (ascii ''Status'') (JStr (ascii ''SUCCESS'')) True,
           field (ascii ''Branch'') (JStr (ascii ''main'')) True,
           field (ascii ''Commit'') (JStr (ascii ''abcdef12'')) True,
           field (ascii ''Author'') (JStr (ascii ''dev'')) True,
           shown]"
    by blast
  show ?thesis
    using flds
      commit_message_truncation
        [of "replicate 150 120" ?ps "sample_env None"
            "JStr (ascii ''success'')" "JStr (ascii ''main'')" "JStr (ascii ''abcdef1234567890'')"
            "JStr (ascii ''dev'')" "JStr []"]
      commit_message_truncation
        [of "replicate 101 120" ?ps "sample_env None" JNull JNull JNull JNull JNull]
      commit_message_truncation
        [of "replicate 100 120" ?ps "sample_env None" JNull JNull JNull JNull JNull]
      commit_message_truncation
        [of "ascii ''fix typo''" ?ps "sample_env None" JNull JNull JNull JNull JNull]
    by simp
qed

text \<open>
  Claim C9. The alarm classifier looks the new state up as it is, without changing its
  case: \<^verbatim>\<open>ALARM\<close> gives red and U+1F6A8, \<^verbatim>\<open>OK\<close> green and U+2705,
  \<^verbatim>\<open>INSUFFICIENT_DATA\<close> orange and U+26A0 U+FE0F, every other string gray and U+2753.
  So a message with old state \<^verbatim>\<open>ALARM\<close> and new state \<^verbatim>\<open>OK\<close> is built, its
  attachment is green, its title is U+2705 followed by \<^verbatim>\<open>CloudWatch Alarm:\<close> and the
  alarm name, and its \<^verbatim>\<open>State Change\<close> field reads \<^verbatim>\<open>ALARM\<close>, U+2192, \<^verbatim>\<open>OK\<close>.
\<close>

theorem classify_state_table:
  "classify_state (JStr s) =
     Inr (if s = ascii ''ALARM'' then (ascii ''#FF0000'', [128680])
          else if s = ascii ''OK'' then (ascii ''#00FF00'', [9989])
          else if s = ascii ''INSUFFICIENT_DATA'' then (ascii ''#FFA500'', [9888, 65039])
          else (ascii ''#808080'', [10067]))
   \<and> (\<forall>m. sns_message ps event = Inr (JDict m)
          \<and> map_of m (ascii ''OldStateValue'') = Some (JStr (ascii ''ALARM''))
          \<and> map_of m (ascii ''NewStateValue'') = Some (JStr (ascii ''OK''))
        \<longrightarrow> (\<exists>att flds alarm_name.
               alarm_message ps env event =
                 Inr (JDict [(ascii ''username'', JStr (project_name env @ ascii '' Monitoring'')),
                             (ascii ''icon_emoji'', JStr (ascii '':warning:'')),
                             (ascii ''attachments'', JList [JDict att])])
             \<and> dict_get (JDict m) (ascii ''AlarmName'') (JStr (ascii ''Unknown Alarm'')) = Inr alarm_name
             \<and> map_of att (ascii ''color'') = Some (JStr (ascii ''#00FF00''))
             \<and> map_of att (ascii ''title'') =
                 Some (JStr ([9989] @ ascii '' CloudWatch Alarm: '' @ fmt ps alarm_name))
             \<and> map_of att (ascii ''fields'') = Some (JList flds)
             \<and> field (ascii ''State Change'') (JStr (ascii ''ALARM'' @ [32, 8594, 32] @ ascii ''OK'')) True
                 \<in> set flds))"
proof -
  have table: "classify_state (JStr s) =
     Inr (if s = ascii ''ALARM'' then (ascii ''#FF0000'', [128680])
          else if s = ascii ''OK'' then (ascii ''#00FF00'', [9989])
          else if s = ascii ''INSUFFICIENT_DATA'' then (ascii ''#FFA500'', [9888, 65039])
          else (ascii ''#808080'', [10067]))" for s
    by (simp add: classify_state_def map_get_str color_map_def emoji_map_def)
  have ok: "classify_state (JStr (ascii ''OK'')) = Inr (ascii ''#00FF00'', [9989])"
    by (simp add: table)
  show ?thesis
    by (auto simp: table alarm_message_def ok alarm_attachment_def fmt_def)
qed


theorem classify_state_table_witness:
  "classify_state (JStr (ascii ''ALARM'')) = Inr (ascii ''#FF0000'', [128680])
   \<and> classify_state (JStr (ascii ''OK'')) = Inr (ascii ''#00FF00'', [9989])
   \<and> classify_state (JStr (ascii ''INSUFFICIENT_DATA'')) = Inr (ascii ''#FFA500'', [9888, 65039])
   \<and> classify_state (JStr (ascii ''alarm'')) = Inr (ascii ''#808080'', [10067])
   \<and> (\<exists>att flds.
         alarm_message (sample_platform (\<lambda>s. Inr alarm_cleared) (Inl (RequestError [])))
           (sample_env None) (sns_event (JStr (ascii ''{}''))) =
           Inr (JDict [(ascii ''username'', JStr (ascii ''NovaCore Vectra Monitoring'')),
                       (ascii ''icon_emoji'', JStr (ascii '':warning:'')),
                       (ascii ''attachments'', JList [JDict att])])
       \<and> map_of att (ascii ''color'') = Some (JStr (ascii ''#00FF00''))
       \<and> map_of att (ascii ''title'') = Some (JStr ([9989] @ ascii '' CloudWatch Alarm: HighCPU''))
       \<and> map_of att (ascii ''fields'') = Some (JList flds)
       \<and> field (ascii ''State Change'') (JStr (ascii ''ALARM'' @ [32, 8594, 32] @ ascii ''OK'')) True
           \<in> set flds)"
proof -
  let ?ps = "sample_platform (\<lambda>s. Inr alarm_cleared) (Inl (RequestError []))"
  let ?m = "[(ascii ''AlarmName'', JStr (ascii ''HighCPU'')),
             (ascii ''NewStateValue'', JStr (ascii ''OK'')),
             (ascii ''OldStateValue'', JStr (ascii ''ALARM''))]"
  have decoded: "sns_message ?ps (sns_event (JStr (ascii ''{}''))) = Inr (JDict ?m)"
    by (simp add: alarm_cleared_def)
  have old: "map_of ?m (ascii ''OldStateValue'') = Some (JStr (ascii ''ALARM''))"
    and new: "map_of ?m (ascii ''NewStateValue'') = Some (JStr (ascii ''OK''))"
    by simp_all
  note t = classify_state_table [of _ ?ps "sns_event (JStr (ascii ''{}''))" "sample_env None"]
  from t [of "[]", THEN conjunct2, rule_format, of ?m] decoded old new
  have built: "\<exists>att flds.
         alarm_message ?ps (sample_env None) (sns_event (JStr (ascii ''{}''))) =
           Inr (JDict [(ascii ''username'', JStr (ascii ''NovaCore Vectra Monitoring'')),
                       (ascii ''icon_emoji'', JStr (ascii '':warning:'')),
                       (ascii ''attachments'', JList [JDict att])])
       \<and> map_of att (ascii ''color'') = Some (JStr (ascii ''#00FF00''))
       \<and> map_of att (ascii ''title'') = Some (JStr ([9989] @ ascii '' CloudWatch Alarm: HighCPU''))
       \<and> map_of att (ascii ''fields'') = Some (JList flds)
       \<and> field (ascii ''State Change'') (JStr (ascii ''ALARM'' @ [32, 8594, 32] @ ascii ''OK'')) True
           \<in> set flds"
    by (simp add: project_name_def fmt_def alarm_cleared_def)
  show ?thesis
    using built
      t [of "ascii ''ALARM''", THEN conjunct1] t [of "ascii ''OK''", THEN conjunct1]
      t [of "ascii ''INSUFFICIENT_DATA''", THEN conjunct1] t [of "ascii ''alarm''", THEN conjunct1]
    by simp
qed

section \<open>The link and the button of the pipeline message\<close>

text \<open>
  Claim C3. In a message the pipeline notifier has built, the attachment has the key
  \<^verbatim>\<open>actions\<close> exactly when the event type is \<^verbatim>\<open>deployment_failed\<close>,
  \<^verbatim>\<open>build_failed\<close> or \<^verbatim>\<open>security_scan_failed\<close>; it then holds one
  \<^verbatim>\<open>View Workflow\<close> button. For every other event type the key is absent.
\<close>

theorem actions_iff_failed_event:
  assumes "pipeline_message ps env event = Inr msg"
  shows "\<exists>m event_type username icon att.
           sns_message ps event = Inr m
         \<and> dict_get m (ascii ''event_type'') (JStr (ascii ''unknown'')) = Inr event_type
         \<and> msg = JDict [(ascii ''username'', username), (ascii ''icon_emoji'', icon),
                         (ascii ''attachments'', JList [JDict att])]
         \<and> ((ascii ''actions'' \<in> fst ` set att) =
              (event_type \<in> {JStr (ascii ''deployment_failed''), JStr (ascii ''build_failed''),
                              JStr (ascii ''security_scan_failed'')}))
         \<and> (event_type \<in> {JStr (ascii ''deployment_failed''), JStr (ascii ''build_failed''),
                            JStr (ascii ''security_scan_failed'')} \<longrightarrow>
              (\<exists>workflow_url.
                 map_of att (ascii ''actions'') =
                   Some (JList [JDict [(ascii ''type'', JStr (ascii ''button'')),
                                       (ascii ''text'', JStr (ascii ''View Workflow'')),
                                       (ascii ''url'', workflow_url),
                                       (ascii ''style'', JStr (ascii ''primary''))]])))"
proof -
  from pipeline_message_built [OF assms] obtain m event_type color title workflow_url flds where
    "sns_message ps event = Inr m"
    "dict_get m (ascii ''event_type'') (JStr (ascii ''unknown'')) = Inr event_type"
    "msg = JDict [(ascii ''username'', JStr (project_name env @ ascii '' CI/CD'')),
                  (ascii ''icon_emoji'', JStr (ascii '':rocket:'')),
                  (ascii ''attachments'',
                   JList [pipeline_attachment ps env color title workflow_url flds event_type])]"
    by blast
  then show ?thesis
    by (auto simp: pipeline_attachment_def view_workflow_def)
qed

theorem actions_iff_failed_event_witness:
  "(\<exists>username icon att.
      pipeline_message (sample_platform (\<lambda>s. Inr failed_build) (Inl (RequestError [])))
        (sample_env None) (sns_event (JStr (ascii ''{}''))) =
        Inr (JDict [(ascii ''username'', username), (ascii ''icon_emoji'', icon),
                    (ascii ''attachments'', JList [JDict att])])
      \<and> ascii ''actions'' \<in> fst ` set att)
   \<and> (\<exists>username icon att.
      pipeline_message (sample_platform (\<lambda>s. Inr deployment_done) (Inl (RequestError [])))
        (sample_env None) (sns_event (JStr (ascii ''{}''))) =
        Inr (JDict [(ascii ''username'', username), (ascii ''icon_emoji'', icon),
                    (ascii ''attachments'', JList [JDict att])])
      \<and> ascii ''actions'' \<notin> fst ` set att)"
proof -
  let ?p1 = "sample_platform (\<lambda>s. Inr failed_build) (Inl (RequestError []))"
  let ?p2 = "sample_platform (\<lambda>s. Inr deployment_done) (Inl (RequestError []))"
  let ?ev = "sns_event (JStr (ascii ''{}''))"
  obtain m1 where m1: "pipeline_message ?p1 (sample_env None) ?ev = Inr (JDict m1)"
    using failed_build_message by blast
  obtain m2 where m2: "pipeline_message ?p2 (sample_env None) ?ev = Inr (JDict m2)"
    using deployment_done_message by blast
  have "\<exists>username icon att.
      JDict m1 = JDict [(ascii ''username'', username), (ascii ''icon_emoji'', icon),
                    (ascii ''attachments'', JList [JDict att])]
      \<and> ascii ''actions'' \<in> fst ` set att"
    using actions_iff_failed_event [OF m1] by (auto simp: failed_build_def)
  moreover have "\<exists>username icon att.
      JDict m2 = JDict [(ascii ''username'', username), (ascii ''icon_emoji'', icon),
                    (ascii ''attachments'', JList [JDict att])]
      \<and> ascii ''actions'' \<notin> fst ` set att"
    using actions_iff_failed_event [OF m2] by (auto simp: deployment_done_def)
  ultimately show ?thesis
    unfolding m1 m2 by simp
qed

text \<open>
  Claim C1. For a failed build whose message has no \<^verbatim>\<open>workflow_url\<close>, the attachment
  the notifier builds has \<^verbatim>\<open>title_link\<close> \<^verbatim>\<open>None\<close>, as it has for every event without
  a workflow URL (\<open>title_link_null_without_url\<close>), but it also has the
  \<^verbatim>\<open>View Workflow\<close> button, and the button's \<^verbatim>\<open>url\<close> is the empty string: the
  absent link is in the payload as \<^verbatim>\<open>""\<close>.
\<close>

theorem failed_build_button_url_empty:
  "\<exists>username icon att.
     pipeline_message (sample_platform (\<lambda>s. Inr failed_build) (Inl (RequestError [])))
       (sample_env None) (sns_event (JStr (ascii ''{}''))) =
       Inr (JDict [(ascii ''username'', username), (ascii ''icon_emoji'', icon),
                   (ascii ''attachments'', JList [JDict att])])
     \<and> map_of att (ascii ''title_link'') = Some JNull
     \<and> map_of att (ascii ''actions'') =
         Some (JList [JDict [(ascii ''type'', JStr (ascii ''button'')),
                             (ascii ''text'', JStr (ascii ''View Workflow'')),
                             (ascii ''url'', JStr []),
                             (ascii ''style'', JStr (ascii ''primary''))]])"
  by (simp add: pipeline_message_def failed_build_def classify_status_def py_lower_def
      ascii_lower_def title_of_def fmt_def pipeline_fields_def upper_of_def
      commit_message_value_def pipeline_attachment_def view_workflow_def)

end
